theory Spec2Isabelle
  imports Main "HOL-Library.Word"
begin

section \<open>The HDFS environment of rocksdb (util/env_hdfs.cc)\<close>

text \<open>
  The file wraps the libhdfs client API. The client library is an external collaborator:
  every primitive of it that the code calls is a field of the record \<open>hdfs\<close> below, a
  function from the backend's state to a return value and the next state, so that a
  theorem about the code holds for every behaviour of the backend. Each remote call is
  also written to a log of calls, which is what the statements about the order and the number
  of remote calls are stated on.
\<close>

subsection \<open>C types\<close>

type_synonym tSize = "32 word"     \<comment> \<open>\<open>int32_t\<close>, read with \<open>sint\<close>\<close>
type_synonym tOffset = "64 word"   \<comment> \<open>\<open>int64_t\<close>, read with \<open>sint\<close>\<close>
type_synonym size_t = "64 word"    \<comment> \<open>unsigned, read with \<open>uint\<close>\<close>
type_synonym uint64_t = "64 word"

text \<open>An \<open>hdfsFile\<close> is a pointer: \<open>None\<close> is \<open>nullptr\<close>.\<close>

type_synonym hdfsFile = "nat option"

datatype open_flag = O_RDONLY | O_WRONLY

record hdfsFileInfo =
  mName :: string
  mSize :: tOffset

subsection \<open>The libhdfs primitives and the log of remote calls\<close>

datatype hcall =
    CallOpenFile string open_flag
  | CallCloseFile hdfsFile
  | CallRead hdfsFile tSize
  | CallPread hdfsFile tOffset tSize
  | CallTell hdfsFile
  | CallSeek hdfsFile tOffset
  | CallWrite hdfsFile string tSize
  | CallFlush hdfsFile
  | CallSync hdfsFile
  | CallGetPathInfo string
  | CallExists string
  | CallListDirectory string
  | CallDelete string
  | CallRename string string

text \<open>
  \<open>hdfsRead\<close> and \<open>hdfsPread\<close> return the count and the bytes they stored in the
  caller's scratch buffer. \<open>hdfsListDirectory\<close> returns the array pointer (\<open>None\<close> is a
  null pointer) and the value it left in \<open>numEntries\<close>. \<open>errno\<close> is the value of the
  C variable of that name in a state of the backend.
\<close>

record 'fs hdfs =
  hdfsOpenFile :: "'fs \<Rightarrow> string \<Rightarrow> open_flag \<Rightarrow> hdfsFile \<times> 'fs"
  hdfsCloseFile :: "'fs \<Rightarrow> hdfsFile \<Rightarrow> int \<times> 'fs"
  hdfsRead :: "'fs \<Rightarrow> hdfsFile \<Rightarrow> tSize \<Rightarrow> (tSize \<times> string) \<times> 'fs"
  hdfsPread :: "'fs \<Rightarrow> hdfsFile \<Rightarrow> tOffset \<Rightarrow> tSize \<Rightarrow> (tSize \<times> string) \<times> 'fs"
  hdfsTell :: "'fs \<Rightarrow> hdfsFile \<Rightarrow> tOffset \<times> 'fs"
  hdfsSeek :: "'fs \<Rightarrow> hdfsFile \<Rightarrow> tOffset \<Rightarrow> int \<times> 'fs"
  hdfsWrite :: "'fs \<Rightarrow> hdfsFile \<Rightarrow> string \<Rightarrow> tSize \<Rightarrow> tSize \<times> 'fs"
  hdfsFlush :: "'fs \<Rightarrow> hdfsFile \<Rightarrow> int \<times> 'fs"
  hdfsSync :: "'fs \<Rightarrow> hdfsFile \<Rightarrow> int \<times> 'fs"
  hdfsGetPathInfo :: "'fs \<Rightarrow> string \<Rightarrow> hdfsFileInfo option \<times> 'fs"
  hdfsExists :: "'fs \<Rightarrow> string \<Rightarrow> int \<times> 'fs"
  hdfsListDirectory :: "'fs \<Rightarrow> string \<Rightarrow> (hdfsFileInfo list option \<times> int) \<times> 'fs"
  hdfsDelete :: "'fs \<Rightarrow> string \<Rightarrow> int \<times> 'fs"
  hdfsRename :: "'fs \<Rightarrow> string \<Rightarrow> string \<Rightarrow> int \<times> 'fs"
  errno :: "'fs \<Rightarrow> int"

record 'fs world =
  fs :: 'fs
  calls :: "hcall list"

definition remote :: "hcall \<Rightarrow> ('fs \<Rightarrow> 'a \<times> 'fs) \<Rightarrow> 'fs world \<Rightarrow> 'a \<times> 'fs world" where
  "remote c prim w =
     (case prim (fs w) of (r, s) \<Rightarrow> (r, \<lparr>fs = s, calls = calls w @ [c]\<rparr>))"

subsection \<open>Status\<close>

text \<open>
  \<open>IOError context err_number\<close> is the static helper of the file:
  \<open>Status::IOError(context, strerror(err_number))\<close>.
\<close>

datatype Status = OK | IOError string int | NotSupported string

text \<open>
  What a call does besides returning: \<open>Throw\<close> is a thrown \<open>HdfsFatalException\<close>
  with its message, \<open>Abort\<close> a failed \<open>assert\<close>, \<open>Fault\<close> a read through a null
  pointer or past the end of an array.
\<close>

datatype 'a outcome = Return 'a | Throw string | Abort | Fault

text \<open>
  A \<open>Slice\<close> points into the scratch buffer; \<open>slice_data\<close> is what the buffer holds,
  \<open>slice_size\<close> the length the slice was built with. (The members of the source end in an
  underscore, which an Isabelle name cannot: \<open>filename\<close> and \<open>hfile\<close> are
  \<open>filename_\<close> and \<open>hfile_\<close> of HdfsReadableFile, \<open>wfilename\<close> and \<open>whfile\<close> those
  of HdfsWritableFile.)
\<close>

record Slice =
  slice_data :: string
  slice_size :: size_t

subsection \<open>HdfsReadableFile\<close>

record HdfsReadableFile =
  filename :: string
  hfile :: hdfsFile

definition HdfsReadableFile :: "'fs hdfs \<Rightarrow> string \<Rightarrow> 'fs world \<Rightarrow> HdfsReadableFile \<times> 'fs world" where
  "HdfsReadableFile api fname w =
     (case remote (CallOpenFile fname O_RDONLY) (\<lambda>s. hdfsOpenFile api s fname O_RDONLY) w of
        (h, w1) \<Rightarrow> (\<lparr>filename = fname, hfile = h\<rparr>, w1))"

definition isValid :: "HdfsReadableFile \<Rightarrow> bool" where
  "isValid f = (hfile f \<noteq> None)"

definition fileSize :: "'fs hdfs \<Rightarrow> HdfsReadableFile \<Rightarrow> 'fs world \<Rightarrow> tOffset outcome \<times> 'fs world" where
  "fileSize api f w =
     (case remote (CallGetPathInfo (filename f)) (\<lambda>s. hdfsGetPathInfo api s (filename f)) w of
        (pFileInfo, w1) \<Rightarrow>
          (case pFileInfo of
             Some info \<Rightarrow> (Return (mSize info), w1)
           | None \<Rightarrow> (Throw (''fileSize on unknown file '' @ filename f), w1)))"

text \<open>
  \<open>hdfsTell(fileSys_, hfile_) == fileSize()\<close>: C++ leaves the order of the two operands
  open; the model evaluates the left one first.
\<close>

definition feof :: "'fs hdfs \<Rightarrow> HdfsReadableFile \<Rightarrow> 'fs world \<Rightarrow> bool outcome \<times> 'fs world" where
  "feof api f w =
     (case remote (CallTell (hfile f)) (\<lambda>s. hdfsTell api s (hfile f)) w of
        (pos, w1) \<Rightarrow>
          (case fileSize api f w1 of
             (sz, w2) \<Rightarrow> (map_outcome (\<lambda>sz. if pos = sz then True else False) sz, w2)))"

text \<open>
  Sequential read. \<open>size_t bytes_read = hdfsRead(..., (tSize)n)\<close>: the count is cut to 32
  bits on the way in, and the signed 32-bit return value is sign-extended to the unsigned
  64-bit \<open>bytes_read\<close>. \<open>*result\<close> is assigned before \<open>feof\<close> can throw.
\<close>

definition Read :: "'fs hdfs \<Rightarrow> HdfsReadableFile \<Rightarrow> size_t \<Rightarrow> 'fs world \<Rightarrow>
    (Status outcome \<times> Slice) \<times> 'fs world" where
  "Read api f n w =
     (case remote (CallRead (hfile f) (ucast n)) (\<lambda>s. hdfsRead api s (hfile f) (ucast n)) w of
        ((r, scratch), w1) \<Rightarrow>
          (let bytes_read = (scast r :: size_t);
               result = \<lparr>slice_data = scratch, slice_size = bytes_read\<rparr>
           in if bytes_read < n then
                (case feof api f w1 of
                   (eof, w2) \<Rightarrow>
                     ((map_outcome
                         (\<lambda>e. if e then OK else IOError (filename f) (errno api (fs w2))) eof,
                       result), w2))
              else ((Return OK, result), w1)))"

text \<open>Positioned read: \<open>ssize_t bytes_read = hdfsPread(...)\<close>, signed 64-bit.\<close>

definition Read_offset :: "'fs hdfs \<Rightarrow> HdfsReadableFile \<Rightarrow> uint64_t \<Rightarrow> size_t \<Rightarrow> 'fs world \<Rightarrow>
    (Status \<times> Slice) \<times> 'fs world" where
  "Read_offset api f offset n w =
     (case remote (CallPread (hfile f) offset (ucast n))
             (\<lambda>s. hdfsPread api s (hfile f) offset (ucast n)) w of
        ((r, scratch), w1) \<Rightarrow>
          (let bytes_read = (scast r :: 64 word);
               result = \<lparr>slice_data = scratch,
                         slice_size = (if sint bytes_read < 0 then 0 else bytes_read)\<rparr>
           in if sint bytes_read < 0
              then ((IOError (filename f) (errno api (fs w1)), result), w1)
              else ((OK, result), w1)))"

text \<open>\<open>tOffset newoffset = current + n\<close> with \<open>n\<close> unsigned: 64-bit addition, wrapping.\<close>

definition Skip :: "'fs hdfs \<Rightarrow> HdfsReadableFile \<Rightarrow> uint64_t \<Rightarrow> 'fs world \<Rightarrow> Status \<times> 'fs world" where
  "Skip api f n w =
     (case remote (CallTell (hfile f)) (\<lambda>s. hdfsTell api s (hfile f)) w of
        (current, w1) \<Rightarrow>
          if sint current < 0 then (IOError (filename f) (errno api (fs w1)), w1)
          else
            (let newoffset = current + n in
             case remote (CallSeek (hfile f) newoffset)
                    (\<lambda>s. hdfsSeek api s (hfile f) newoffset) w1 of
               (val, w2) \<Rightarrow>
                 if val < 0 then (IOError (filename f) (errno api (fs w2)), w2)
                 else (OK, w2)))"

subsection \<open>HdfsWritableFile\<close>

record HdfsWritableFile =
  wfilename :: string
  whfile :: hdfsFile

text \<open>
  The constructor ends in \<open>assert(hfile_ != nullptr)\<close>, which is compiled out when
  \<open>NDEBUG\<close> is defined; \<open>ndebug\<close> says whether it is.
\<close>

definition HdfsWritableFile :: "'fs hdfs \<Rightarrow> bool \<Rightarrow> string \<Rightarrow> 'fs world \<Rightarrow>
    HdfsWritableFile outcome \<times> 'fs world" where
  "HdfsWritableFile api ndebug fname w =
     (case remote (CallOpenFile fname O_WRONLY) (\<lambda>s. hdfsOpenFile api s fname O_WRONLY) w of
        (h, w1) \<Rightarrow>
          if \<not> ndebug \<and> h = None then (Abort, w1)
          else (Return \<lparr>wfilename = fname, whfile = h\<rparr>, w1))"

definition destroy_HdfsWritableFile :: "'fs hdfs \<Rightarrow> HdfsWritableFile \<Rightarrow> 'fs world \<Rightarrow>
    HdfsWritableFile \<times> 'fs world" where
  "destroy_HdfsWritableFile api f w =
     (if whfile f \<noteq> None then
        (case remote (CallCloseFile (whfile f)) (\<lambda>s. hdfsCloseFile api s (whfile f)) w of
           (r, w1) \<Rightarrow> (f\<lparr>whfile := None\<rparr>, w1))
      else (f, w))"

definition wisValid :: "HdfsWritableFile \<Rightarrow> bool" where
  "wisValid f = (whfile f \<noteq> None)"

definition Flush :: "HdfsWritableFile \<Rightarrow> 'fs world \<Rightarrow> Status \<times> 'fs world" where
  "Flush f w = (OK, w)"

definition Sync :: "'fs hdfs \<Rightarrow> HdfsWritableFile \<Rightarrow> 'fs world \<Rightarrow> Status \<times> 'fs world" where
  "Sync api f w =
     (case remote (CallFlush (whfile f)) (\<lambda>s. hdfsFlush api s (whfile f)) w of
        (r1, w1) \<Rightarrow>
          if r1 = -1 then (IOError (wfilename f) (errno api (fs w1)), w1)
          else
            (case remote (CallSync (whfile f)) (\<lambda>s. hdfsSync api s (whfile f)) w1 of
               (r2, w2) \<Rightarrow>
                 if r2 = -1 then (IOError (wfilename f) (errno api (fs w2)), w2)
                 else (OK, w2)))"

text \<open>
  \<open>Append(const char* src, size_t size)\<close>, the overload the logger uses: the count
  returned by \<open>hdfsWrite\<close> is compared with \<open>(tSize)size\<close>.
\<close>

definition Append :: "'fs hdfs \<Rightarrow> HdfsWritableFile \<Rightarrow> string \<Rightarrow> size_t \<Rightarrow> 'fs world \<Rightarrow>
    Status \<times> 'fs world" where
  "Append api f src sz w =
     (case remote (CallWrite (whfile f) src (ucast sz))
             (\<lambda>s. hdfsWrite api s (whfile f) src (ucast sz)) w of
        (r, w1) \<Rightarrow>
          if r \<noteq> (ucast sz :: tSize) then (IOError (wfilename f) (errno api (fs w1)), w1)
          else (OK, w1))"

text \<open>\<open>Close\<close> returns the status and the object with its (possibly updated) handle field.\<close>

definition Close :: "'fs hdfs \<Rightarrow> HdfsWritableFile \<Rightarrow> 'fs world \<Rightarrow>
    (Status \<times> HdfsWritableFile) \<times> 'fs world" where
  "Close api f w =
     (case remote (CallCloseFile (whfile f)) (\<lambda>s. hdfsCloseFile api s (whfile f)) w of
        (r, w1) \<Rightarrow>
          if r \<noteq> 0 then ((IOError (wfilename f) (errno api (fs w1)), f), w1)
          else ((OK, f\<lparr>whfile := None\<rparr>), w1))"

subsection \<open>HdfsLogger::Logv\<close>

text \<open>
  The character arrays are lists of cells; a cell that was never written is \<open>None\<close>.
  Pointers into a buffer are offsets from \<open>base\<close>. \<open>poke\<close> is a store of some bytes at
  an offset and is \<open>None\<close> when it would leave the array; \<open>peek\<close> is a load and is
  \<open>None\<close> outside the array or on a cell that was never written.
\<close>

type_synonym buffer = "char option list"

definition NUL :: char where
  "NUL = CHR 0x00"

definition newline :: char where
  "newline = CHR 0x0A"

definition poke :: "buffer \<Rightarrow> nat \<Rightarrow> string \<Rightarrow> buffer option" where
  "poke buf off bs =
     (if off + length bs \<le> length buf
      then Some (take off buf @ map Some bs @ drop (off + length bs) buf)
      else None)"

definition peek :: "buffer \<Rightarrow> nat \<Rightarrow> char option" where
  "peek buf i = (if i < length buf then buf ! i else None)"

text \<open>
  \<open>snprintf(p, size, ...)\<close> and \<open>vsnprintf\<close> of C99, on the text \<open>s\<close> that the format and
  its arguments produce: nothing is stored when \<open>size\<close> is 0, otherwise the first
  \<open>size - 1\<close> characters of \<open>s\<close> and a terminating NUL; the value returned is the length
  of the whole of \<open>s\<close>. (The C return type is \<open>int\<close>: the model is of texts shorter than
  \<open>INT_MAX\<close>.)
\<close>

definition c_snprintf :: "buffer \<Rightarrow> nat \<Rightarrow> nat \<Rightarrow> string \<Rightarrow> buffer option \<times> nat" where
  "c_snprintf buf p sz s =
     (if sz = 0 then (Some buf, length s)
      else (poke buf p (take (sz - 1) s @ [NUL]), length s))"

datatype attempt =
    Continue             \<comment> \<open>\<open>continue\<close>: no line yet\<close>
  | Break string         \<comment> \<open>the bytes \<open>base[0 .. p-base)\<close> handed to \<open>Append\<close>\<close>
  | Overrun              \<comment> \<open>a store outside the buffer\<close>
  | Uninit               \<comment> \<open>a load outside the buffer or of a cell never written\<close>
  | AssertFailed         \<comment> \<open>\<open>assert(p <= limit)\<close> failed\<close>

text \<open>
  One pass of the loop body, in the three parts the source has. \<open>hdr\<close> is the text of
  the time stamp and thread id that the first \<open>snprintf\<close> formats, \<open>msg\<close> the text of
  \<open>format\<close> with its arguments.

  The first part formats the header and, when \<open>p < limit\<close>, the message, into a fresh
  buffer of \<open>bufsize\<close> bytes; it gives the buffer and \<open>p\<close>.
\<close>

definition Logv_format :: "nat \<Rightarrow> string \<Rightarrow> string \<Rightarrow> buffer option \<times> nat" where
  "Logv_format bufsize hdr msg =
     (let base = replicate bufsize None;
          limit = bufsize
      in case c_snprintf base 0 (limit - 0) hdr of
           (None, n1) \<Rightarrow> (None, n1)
         | (Some buf1, n1) \<Rightarrow>
             (let p = 0 + n1 in
              if p < limit
              then (case c_snprintf buf1 p (limit - p) msg of (b, n2) \<Rightarrow> (b, p + n2))
              else (Some buf1, p)))"

text \<open>
  The last part: "Add newline if necessary" (\<open>p == base || p[-1] != '\n'\<close>, the second
  operand read only when the first is false), \<open>assert(p <= limit)\<close> (taken as compiled
  in), and the bytes \<open>base[0 .. p-base)\<close> that go to \<open>Append\<close>.
\<close>

definition Logv_newline :: "buffer \<Rightarrow> nat \<Rightarrow> nat \<Rightarrow> attempt" where
  "Logv_newline buf p limit =
     (case (if p = 0 then Some True
            else (case peek buf (p - 1) of
                    None \<Rightarrow> None
                  | Some c \<Rightarrow> Some (c \<noteq> newline))) of
        None \<Rightarrow> Uninit
      | Some add \<Rightarrow>
          (case (if add then (poke buf p [newline], p + 1) else (Some buf, p)) of
             (None, p') \<Rightarrow> Overrun
           | (Some buf', p') \<Rightarrow>
               if \<not> p' \<le> limit then AssertFailed
               else (case those (take p' buf') of
                       None \<Rightarrow> Uninit
                     | Some line \<Rightarrow> Break line)))"

text \<open>
  The body: format, then "Truncate to available space if necessary" (\<open>continue\<close> in the
  first pass, \<open>p = limit - 1\<close> in the second), then the newline.
\<close>

definition Logv_body :: "nat \<Rightarrow> string \<Rightarrow> string \<Rightarrow> attempt" where
  "Logv_body iter hdr msg =
     (let bufsize = (if iter = 0 then 500 else 30000);
          limit = bufsize
      in case Logv_format bufsize hdr msg of
           (None, p) \<Rightarrow> Overrun
         | (Some buf, p) \<Rightarrow>
             if p \<ge> limit
             then (if iter = 0 then Continue else Logv_newline buf (limit - 1) limit)
             else Logv_newline buf p limit)"

text \<open>
  \<open>for (int iter = 0; iter < 2; iter++)\<close>. \<open>gettimeofday\<close> is called in each pass, so
  the header may differ between the passes: \<open>hdr0\<close> is the header of the first pass
  and \<open>hdr1\<close> that of the second. \<open>Continue\<close> as the result of the loop: it ended
  without a line.
\<close>

function Logv_loop :: "nat \<Rightarrow> string \<Rightarrow> string \<Rightarrow> string \<Rightarrow> attempt" where
  "Logv_loop iter hdr0 hdr1 msg =
     (if iter < 2 then
        (case Logv_body iter (if iter = 0 then hdr0 else hdr1) msg of
           Continue \<Rightarrow> Logv_loop (iter + 1) hdr0 hdr1 msg
         | r \<Rightarrow> r)
      else Continue)"
  by pat_completeness auto
termination
  by (relation "measure (\<lambda>(iter, hdr0, hdr1, msg). 2 - iter)") auto

declare Logv_loop.simps [simp del]

text \<open>
  \<open>Logv\<close>: the line goes to \<open>file_->Append(base, p-base)\<close>, then \<open>file_->Flush()\<close>; both
  statuses are dropped.
\<close>

definition Logv :: "'fs hdfs \<Rightarrow> HdfsWritableFile \<Rightarrow> string \<Rightarrow> string \<Rightarrow> string \<Rightarrow> 'fs world \<Rightarrow>
    unit outcome \<times> 'fs world" where
  "Logv api file hdr0 hdr1 msg w =
     (case Logv_loop 0 hdr0 hdr1 msg of
        Break line \<Rightarrow>
          (case Append api file line (of_nat (length line)) w of
             (s1, w1) \<Rightarrow> (case Flush file w1 of (s2, w2) \<Rightarrow> (Return (), w2)))
      | Continue \<Rightarrow> (Return (), w)
      | AssertFailed \<Rightarrow> (Abort, w)
      | Overrun \<Rightarrow> (Fault, w)
      | Uninit \<Rightarrow> (Fault, w))"

subsection \<open>HdfsEnv: factories\<close>

text \<open>
  A \<open>new\<close> expression yields the object and never \<open>nullptr\<close> (running out of memory
  throws \<open>std::bad_alloc\<close>, which is left out); the factories test the pointer all the same.
\<close>

definition operator_new :: "'a \<Rightarrow> 'a option" where
  "operator_new obj = Some obj"

definition NewSequentialFile :: "'fs hdfs \<Rightarrow> string \<Rightarrow> 'fs world \<Rightarrow>
    (Status \<times> HdfsReadableFile option) \<times> 'fs world" where
  "NewSequentialFile api fname w =
     (case HdfsReadableFile api fname w of
        (obj, w1) \<Rightarrow>
          (case operator_new obj of
             None \<Rightarrow> ((IOError fname (errno api (fs w1)), None), w1)
           | Some f \<Rightarrow> ((OK, Some f), w1)))"

definition NewRandomAccessFile :: "'fs hdfs \<Rightarrow> string \<Rightarrow> 'fs world \<Rightarrow>
    (Status \<times> HdfsReadableFile option) \<times> 'fs world" where
  "NewRandomAccessFile api fname w =
     (case HdfsReadableFile api fname w of
        (obj, w1) \<Rightarrow>
          (case operator_new obj of
             None \<Rightarrow> ((IOError fname (errno api (fs w1)), None), w1)
           | Some f \<Rightarrow> ((OK, Some f), w1)))"

definition NewWritableFile :: "'fs hdfs \<Rightarrow> bool \<Rightarrow> string \<Rightarrow> 'fs world \<Rightarrow>
    (Status \<times> HdfsWritableFile option) outcome \<times> 'fs world" where
  "NewWritableFile api ndebug fname w =
     (case HdfsWritableFile api ndebug fname w of
        (Return obj, w1) \<Rightarrow>
          (case operator_new obj of
             None \<Rightarrow> (Return (IOError fname (errno api (fs w1)), None), w1)
           | Some f \<Rightarrow>
               if \<not> wisValid f then (Return (IOError fname (errno api (fs w1)), None), w1)
               else (Return (OK, Some f), w1))
      | (Throw m, w1) \<Rightarrow> (Throw m, w1)
      | (Abort, w1) \<Rightarrow> (Abort, w1)
      | (Fault, w1) \<Rightarrow> (Fault, w1))"

subsection \<open>HdfsEnv: metadata operations\<close>

definition FileExists :: "'fs hdfs \<Rightarrow> string \<Rightarrow> 'fs world \<Rightarrow> bool \<times> 'fs world" where
  "FileExists api fname w =
     (case remote (CallExists fname) (\<lambda>s. hdfsExists api s fname) w of
        (val, w1) \<Rightarrow> if val = 0 then (True, w1) else (False, w1))"

text \<open>
  \<open>rindex(pathname, c)\<close> points at the last \<open>c\<close> of the string, or is null: the model
  returns the rest of the string from that character on, so that \<open>filename+1\<close> is its tail.
\<close>

fun rindex :: "string \<Rightarrow> char \<Rightarrow> string option" where
  "rindex [] c = None"
| "rindex (x # xs) c =
     (case rindex xs c of
        Some r \<Rightarrow> Some r
      | None \<Rightarrow> if x = c then Some (x # xs) else None)"

text \<open>
  The loop over \<open>pHdfsFileInfo[i]\<close>, \<open>i < numEntries\<close>, pushing to \<open>result\<close>; \<open>None\<close>
  when it reads through a null pointer or past the end of the array.
\<close>

function GetChildren_loop :: "hdfsFileInfo list option \<Rightarrow> int \<Rightarrow> int \<Rightarrow> string list \<Rightarrow>
    string list option" where
  "GetChildren_loop pHdfsFileInfo numEntries i result =
     (if i < numEntries then
        (case pHdfsFileInfo of
           None \<Rightarrow> None
         | Some infos \<Rightarrow>
             if 0 \<le> i \<and> nat i < length infos then
               (let pathname = mName (infos ! nat i) in
                case rindex pathname (CHR ''/'') of
                  Some filename' \<Rightarrow>
                    GetChildren_loop pHdfsFileInfo numEntries (i + 1) (result @ [tl filename'])
                | None \<Rightarrow> GetChildren_loop pHdfsFileInfo numEntries (i + 1) result)
             else None)
      else Some result)"
  by pat_completeness auto
termination
  by (relation "measure (\<lambda>(p, numEntries, i, result). nat (numEntries - i))") auto

declare GetChildren_loop.simps [simp del]

text \<open>
  \<open>result\<close> is the vector the caller passes in: the code pushes to it and never clears it.
\<close>

definition GetChildren :: "'fs hdfs \<Rightarrow> string \<Rightarrow> string list \<Rightarrow> 'fs world \<Rightarrow>
    (Status outcome \<times> string list) \<times> 'fs world" where
  "GetChildren api path result w =
     (case remote (CallExists path) (\<lambda>s. hdfsExists api s path) w of
        (val, w1) \<Rightarrow>
          if val = 0 then
            (case remote (CallListDirectory path) (\<lambda>s. hdfsListDirectory api s path) w1 of
               ((pHdfsFileInfo, numEntries), w2) \<Rightarrow>
                 if numEntries \<ge> 0 then
                   (case GetChildren_loop pHdfsFileInfo numEntries 0 result of
                      Some result' \<Rightarrow> ((Return OK, result'), w2)
                    | None \<Rightarrow> ((Fault, result), w2))
                 else ((Throw ''hdfsListDirectory call failed negative error.\<newline>'', result), w2))
          else if val = 1 then ((Return OK, result), w1)
          else ((Throw ''hdfsListDirectory call failed with error.\<newline>'', result), w1))"

definition RenameFile :: "'fs hdfs \<Rightarrow> string \<Rightarrow> string \<Rightarrow> 'fs world \<Rightarrow> Status \<times> 'fs world" where
  "RenameFile api src target w =
     (case remote (CallDelete target) (\<lambda>s. hdfsDelete api s target) w of
        (d, w1) \<Rightarrow>
          (case remote (CallRename src target) (\<lambda>s. hdfsRename api s src target) w1 of
             (r, w2) \<Rightarrow>
               if r = 0 then (OK, w2) else (IOError src (errno api (fs w2)), w2)))"

subsection \<open>Two backends for concrete runs\<close>

text \<open>
  The theorems below hold for every backend. To run the code on a concrete input, two
  small backends stand in for the client library. The scripted one answers each call with
  the next entry of a list of prepared answers (and with the primitive's failure value
  when the entry has the wrong shape or the list is empty); its \<open>errno\<close> is 5 (\<open>EIO\<close>).
\<close>

datatype resp =
    RInt int
  | RCount tSize string
  | ROffset tOffset
  | RHandle hdfsFile
  | RInfo "hdfsFileInfo option"
  | RList "hdfsFileInfo list option" int

fun next_int :: "resp list \<Rightarrow> int \<times> resp list" where
  "next_int (RInt i # rs) = (i, rs)"
| "next_int rs = (-1, rs)"

fun next_count :: "resp list \<Rightarrow> (tSize \<times> string) \<times> resp list" where
  "next_count (RCount c d # rs) = ((c, d), rs)"
| "next_count rs = ((-1, []), rs)"

fun next_offset :: "resp list \<Rightarrow> tOffset \<times> resp list" where
  "next_offset (ROffset t # rs) = (t, rs)"
| "next_offset rs = (-1, rs)"

fun next_handle :: "resp list \<Rightarrow> hdfsFile \<times> resp list" where
  "next_handle (RHandle h # rs) = (h, rs)"
| "next_handle rs = (None, rs)"

fun next_info :: "resp list \<Rightarrow> hdfsFileInfo option \<times> resp list" where
  "next_info (RInfo i # rs) = (i, rs)"
| "next_info rs = (None, rs)"

fun next_list :: "resp list \<Rightarrow> (hdfsFileInfo list option \<times> int) \<times> resp list" where
  "next_list (RList p n # rs) = ((p, n), rs)"
| "next_list rs = ((None, -1), rs)"

definition scripted :: "resp list hdfs" where
  "scripted =
     \<lparr>hdfsOpenFile = (\<lambda>s path flag. next_handle s),
      hdfsCloseFile = (\<lambda>s h. next_int s),
      hdfsRead = (\<lambda>s h n. next_count s),
      hdfsPread = (\<lambda>s h off n. next_count s),
      hdfsTell = (\<lambda>s h. next_offset s),
      hdfsSeek = (\<lambda>s h off. next_int s),
      hdfsWrite = (\<lambda>s h src n. case next_count s of ((c, d), rs) \<Rightarrow> (c, rs)),
      hdfsFlush = (\<lambda>s h. next_int s),
      hdfsSync = (\<lambda>s h. next_int s),
      hdfsGetPathInfo = (\<lambda>s path. next_info s),
      hdfsExists = (\<lambda>s path. next_int s),
      hdfsListDirectory = (\<lambda>s path. next_list s),
      hdfsDelete = (\<lambda>s path. next_int s),
      hdfsRename = (\<lambda>s src dst. next_int s),
      errno = (\<lambda>s. 5)\<rparr>"

text \<open>
  The second backend is a namespace only: its state is the list of the paths that exist.
  A delete removes an existing path and fails on a missing one; a rename fails when the
  source is missing or when the target exists (the comment above \<open>RenameFile\<close>: "HDFS
  does not allow a renaming if the target already exists"). It holds no file contents:
  every primitive on a file handle fails. Its \<open>errno\<close> is 2 (\<open>ENOENT\<close>).
\<close>

definition namespace :: "string list hdfs" where
  "namespace =
     \<lparr>hdfsOpenFile = (\<lambda>s path flag. (None, s)),
      hdfsCloseFile = (\<lambda>s h. (-1, s)),
      hdfsRead = (\<lambda>s h n. ((-1, []), s)),
      hdfsPread = (\<lambda>s h off n. ((-1, []), s)),
      hdfsTell = (\<lambda>s h. (-1, s)),
      hdfsSeek = (\<lambda>s h off. (-1, s)),
      hdfsWrite = (\<lambda>s h src n. (-1, s)),
      hdfsFlush = (\<lambda>s h. (-1, s)),
      hdfsSync = (\<lambda>s h. (-1, s)),
      hdfsGetPathInfo = (\<lambda>s path. (None, s)),
      hdfsExists = (\<lambda>s path. (if path \<in> set s then 0 else 1, s)),
      hdfsListDirectory = (\<lambda>s path. ((None, -1), s)),
      hdfsDelete = (\<lambda>s path. if path \<in> set s then (0, removeAll path s) else (-1, s)),
      hdfsRename = (\<lambda>s src dst.
         if src \<in> set s \<and> dst \<notin> set s then (0, dst # removeAll src s) else (-1, s)),
      errno = (\<lambda>s. 2)\<rparr>"

subsection \<open>The specification's words, for comparison with the code\<close>

text \<open>
  The log line as the specification describes it: the content, with one newline appended
  when its last byte is not already a newline (or when there is no byte at all).
\<close>

definition with_newline :: "string \<Rightarrow> string" where
  "with_newline t =
     (if t = [] then [newline] else if last t \<noteq> newline then t @ [newline] else t)"

text \<open>"Ends with exactly one trailing newline": the last byte is a newline and the byte
  before it, if there is one, is not.\<close>

definition one_trailing_newline :: "string \<Rightarrow> bool" where
  "one_trailing_newline l =
     (case rev l of
        [] \<Rightarrow> False
      | c # r \<Rightarrow> c = newline \<and> (case r of [] \<Rightarrow> True | d # r' \<Rightarrow> d \<noteq> newline))"

definition ends_with_two_newlines :: "string \<Rightarrow> bool" where
  "ends_with_two_newlines t =
     (case rev t of
        c # d # r \<Rightarrow> c = newline \<and> d = newline
      | _ \<Rightarrow> False)"

text \<open>
  The basename of a full name: what follows its last path separator. The children that the
  specification lists: the basenames of the entries whose full name contains a separator.
\<close>

definition basename :: "string \<Rightarrow> string" where
  "basename p = rev (takeWhile (\<lambda>c. c \<noteq> CHR ''/'') (rev p))"

definition listed_basenames :: "hdfsFileInfo list \<Rightarrow> string list" where
  "listed_basenames infos =
     map (\<lambda>e. basename (mName e)) (filter (\<lambda>e. CHR ''/'' \<in> set (mName e)) infos)"

section \<open>Theorems\<close>

subsection \<open>Conversions between the C integer types\<close>

lemma scast_of_int: "(scast (r :: 32 word) :: 64 word) = of_int (sint r)"
  by (rule scast_eq)

lemma sint_scast_32_64: "sint (scast (r :: 32 word) :: 64 word) = sint r"
  by (rule sint_up_scast) (simp add: is_up)

lemma scast_short_less:
  fixes r :: "32 word" and n :: "64 word"
  assumes "0 \<le> sint r" "sint r < uint n"
  shows "(scast r :: 64 word) < n"
proof -
  have b: "sint r < 2 ^ 31" using sint_lt [of r] by simp
  have "uint (scast r :: 64 word) = uint (word_of_int (sint r) :: 64 word)"
    by (simp only: scast_eq)
  also have "\<dots> = sint r mod 2 ^ LENGTH(64)"
    by (rule uint_word_of_int)
  also have "\<dots> = sint r" using assms(1) b by simp
  finally show ?thesis using assms(2) by (simp add: word_less_def)
qed

subsection \<open>Reading\<close>

text \<open>
  Sequential \<open>Read(n)\<close>, where \<open>hdfsRead\<close> returned the count \<open>r\<close>. When the count is
  not negative and below \<open>n\<close>, the code asks for the cursor (\<open>hdfsTell\<close>) and for the
  size of the file (\<open>hdfsGetPathInfo\<close>); with the size known, the status is OK when the
  cursor equals the size and IOError when it does not (so also when the cursor is below
  the size), and the slice has the \<open>r\<close> bytes read in both cases. When the count that the
  code compares with \<open>n\<close> (the return value as a \<open>size_t\<close>) is not below \<open>n\<close>, the read
  is the only remote call: no size is asked for.
\<close>

theorem Read_short_eof_or_error:
  assumes rd: "hdfsRead api (fs w) (hfile f) (ucast n) = ((r, scratch), s1)"
  shows "(0 \<le> sint r \<and> sint r < uint n \<and> hdfsTell api s1 (hfile f) = (pos, s2) \<and>
          hdfsGetPathInfo api s2 (filename f) = (Some info, s3) \<longrightarrow>
          Read api f n w =
            ((Return (if pos = mSize info then OK else IOError (filename f) (errno api s3)),
              \<lparr>slice_data = scratch, slice_size = of_int (sint r)\<rparr>),
             \<lparr>fs = s3, calls = calls w @ [CallRead (hfile f) (ucast n), CallTell (hfile f),
                                          CallGetPathInfo (filename f)]\<rparr>))
       \<and> (\<not> (scast r :: size_t) < n \<longrightarrow>
          Read api f n w =
            ((Return OK, \<lparr>slice_data = scratch, slice_size = of_int (sint r)\<rparr>),
             \<lparr>fs = s1, calls = calls w @ [CallRead (hfile f) (ucast n)]\<rparr>))"
proof (intro conjI impI)
  assume h: "0 \<le> sint r \<and> sint r < uint n \<and> hdfsTell api s1 (hfile f) = (pos, s2) \<and>
          hdfsGetPathInfo api s2 (filename f) = (Some info, s3)"
  then have lt: "(scast r :: 64 word) < n" by (simp add: scast_short_less)
  from h rd lt show "Read api f n w =
            ((Return (if pos = mSize info then OK else IOError (filename f) (errno api s3)),
              \<lparr>slice_data = scratch, slice_size = of_int (sint r)\<rparr>),
             \<lparr>fs = s3, calls = calls w @ [CallRead (hfile f) (ucast n), CallTell (hfile f),
                                          CallGetPathInfo (filename f)]\<rparr>)"
    by (simp add: Read_def feof_def fileSize_def remote_def Let_def)
next
  assume "\<not> (scast r :: size_t) < n"
  with rd show "Read api f n w =
            ((Return OK, \<lparr>slice_data = scratch, slice_size = of_int (sint r)\<rparr>),
             \<lparr>fs = s1, calls = calls w @ [CallRead (hfile f) (ucast n)]\<rparr>)"
    by (simp add: Read_def remote_def Let_def)
qed

text \<open>
  Three runs on the scripted backend: 3 of 8 bytes with the cursor at the size 3 of the
  file; 3 of 8 bytes with the cursor at 3 in a file of size 10; 3 of 3 bytes.
\<close>

theorem Read_short_witness:
  "Read scripted \<lparr>filename = ''f'', hfile = Some 1\<rparr> 8
      \<lparr>fs = [RCount 3 ''abc'', ROffset 3, RInfo (Some \<lparr>mName = ''f'', mSize = 3\<rparr>)], calls = []\<rparr>
   = ((Return OK, \<lparr>slice_data = ''abc'', slice_size = 3\<rparr>),
      \<lparr>fs = [], calls = [CallRead (Some 1) 8, CallTell (Some 1), CallGetPathInfo ''f'']\<rparr>)
   \<and> Read scripted \<lparr>filename = ''f'', hfile = Some 1\<rparr> 8
      \<lparr>fs = [RCount 3 ''abc'', ROffset 3, RInfo (Some \<lparr>mName = ''f'', mSize = 10\<rparr>)], calls = []\<rparr>
   = ((Return (IOError ''f'' 5), \<lparr>slice_data = ''abc'', slice_size = 3\<rparr>),
      \<lparr>fs = [], calls = [CallRead (Some 1) 8, CallTell (Some 1), CallGetPathInfo ''f'']\<rparr>)
   \<and> Read scripted \<lparr>filename = ''f'', hfile = Some 1\<rparr> 3
      \<lparr>fs = [RCount 3 ''abc''], calls = []\<rparr>
   = ((Return OK, \<lparr>slice_data = ''abc'', slice_size = 3\<rparr>),
      \<lparr>fs = [], calls = [CallRead (Some 1) 3]\<rparr>)"
  using Read_short_eof_or_error [of scripted
          "\<lparr>fs = [RCount 3 ''abc'', ROffset 3, RInfo (Some \<lparr>mName = ''f'', mSize = 3\<rparr>)], calls = []\<rparr>"
          "\<lparr>filename = ''f'', hfile = Some 1\<rparr>" 8 3 "''abc''"
          "[ROffset 3, RInfo (Some \<lparr>mName = ''f'', mSize = 3\<rparr>)]" 3
          "[RInfo (Some \<lparr>mName = ''f'', mSize = 3\<rparr>)]" "\<lparr>mName = ''f'', mSize = 3\<rparr>" "[]"]
        Read_short_eof_or_error [of scripted
          "\<lparr>fs = [RCount 3 ''abc'', ROffset 3, RInfo (Some \<lparr>mName = ''f'', mSize = 10\<rparr>)], calls = []\<rparr>"
          "\<lparr>filename = ''f'', hfile = Some 1\<rparr>" 8 3 "''abc''"
          "[ROffset 3, RInfo (Some \<lparr>mName = ''f'', mSize = 10\<rparr>)]" 3
          "[RInfo (Some \<lparr>mName = ''f'', mSize = 10\<rparr>)]" "\<lparr>mName = ''f'', mSize = 10\<rparr>" "[]"]
        Read_short_eof_or_error [of scripted
          "\<lparr>fs = [RCount 3 ''abc''], calls = []\<rparr>"
          "\<lparr>filename = ''f'', hfile = Some 1\<rparr>" 3 3 "''abc''" "[]"]
  by (simp add: scripted_def)

text \<open>
  C1. The code does not do what the claim says when the read fails. \<open>Read(8)\<close> on a
  file of size 10 with the cursor at 3, where \<open>hdfsRead\<close> returns -1 and transfers no
  byte: the signed 32-bit count is stored in the unsigned \<open>size_t bytes_read\<close>, where it
  is \<open>2^64 - 1\<close> and not below \<open>n\<close>. The test for a short read is skipped: the code asks
  neither for the cursor nor for the size, and returns OK with a slice of length
  \<open>2^64 - 1\<close>, where the cursor is below the size and the comment in the source says "A
  partial read with an error: return a non-ok status". (The positioned read keeps the
  count signed and tests it for \<open>< 0\<close>.)
\<close>

theorem Read_failed_read_returns_OK:
  "Read scripted \<lparr>filename = ''f'', hfile = Some 1\<rparr> 8
      \<lparr>fs = [RCount (-1) [], ROffset 3, RInfo (Some \<lparr>mName = ''f'', mSize = 10\<rparr>)], calls = []\<rparr>
   = ((Return OK, \<lparr>slice_data = [], slice_size = 18446744073709551615\<rparr>),
      \<lparr>fs = [ROffset 3, RInfo (Some \<lparr>mName = ''f'', mSize = 10\<rparr>)],
       calls = [CallRead (Some 1) 8]\<rparr>)"
  by (simp add: Read_def remote_def scripted_def)

text \<open>
  C7. Positioned \<open>Read(offset, n)\<close> makes one remote call, \<open>hdfsPread\<close>, and nothing
  else. A negative count gives IOError and a slice of length 0; any other count \<open>r\<close>, also
  one below \<open>n\<close>, gives OK and a slice of length \<open>r\<close>.
\<close>

theorem Read_offset_negative_is_error:
  "Read_offset api f offset n w =
     (case hdfsPread api (fs w) (hfile f) offset (ucast n) of
        ((r, scratch), s) \<Rightarrow>
          ((if sint r < 0 then IOError (filename f) (errno api s) else OK,
            \<lparr>slice_data = scratch, slice_size = (if sint r < 0 then 0 else of_int (sint r))\<rparr>),
           \<lparr>fs = s, calls = calls w @ [CallPread (hfile f) offset (ucast n)]\<rparr>))"
  by (simp add: Read_offset_def remote_def Let_def sint_scast_32_64 split: prod.splits)

text \<open>Two runs on the scripted backend: 3 of 8 bytes, and the error return -1.\<close>

theorem Read_offset_witness:
  "Read_offset scripted \<lparr>filename = ''f'', hfile = Some 1\<rparr> 10 8
      \<lparr>fs = [RCount 3 ''abc''], calls = []\<rparr>
   = ((OK, \<lparr>slice_data = ''abc'', slice_size = 3\<rparr>),
      \<lparr>fs = [], calls = [CallPread (Some 1) 10 8]\<rparr>)
   \<and> Read_offset scripted \<lparr>filename = ''f'', hfile = Some 1\<rparr> 10 8
      \<lparr>fs = [RCount (-1) []], calls = []\<rparr>
   = ((IOError ''f'' 5, \<lparr>slice_data = [], slice_size = 0\<rparr>),
      \<lparr>fs = [], calls = [CallPread (Some 1) 10 8]\<rparr>)"
  using Read_offset_negative_is_error [of scripted "\<lparr>filename = ''f'', hfile = Some 1\<rparr>" 10 8
          "\<lparr>fs = [RCount 3 ''abc''], calls = []\<rparr>"]
        Read_offset_negative_is_error [of scripted "\<lparr>filename = ''f'', hfile = Some 1\<rparr>" 10 8
          "\<lparr>fs = [RCount (-1) []], calls = []\<rparr>"]
  by (simp add: scripted_def)

text \<open>
  C6, as the code has it. \<open>Skip(n)\<close> asks for the offset (\<open>hdfsTell\<close>); a negative offset
  gives IOError and no seek. Otherwise it seeks to \<open>offset + n\<close> (64-bit) and returns
  IOError when the seek returned a negative value, OK otherwise. There is no separate
  path for \<open>n = 0\<close>: \<open>Skip(0)\<close> makes the same two calls, the seek going to the current
  offset, and succeeds exactly when both of them do.
\<close>

theorem Skip_tell_then_seek:
  "Skip api f n w =
     (case hdfsTell api (fs w) (hfile f) of
        (current, s1) \<Rightarrow>
          if sint current < 0
          then (IOError (filename f) (errno api s1),
                \<lparr>fs = s1, calls = calls w @ [CallTell (hfile f)]\<rparr>)
          else (case hdfsSeek api s1 (hfile f) (current + n) of
                  (val, s2) \<Rightarrow>
                    (if val < 0 then IOError (filename f) (errno api s2) else OK,
                     \<lparr>fs = s2, calls = calls w @ [CallTell (hfile f),
                                                  CallSeek (hfile f) (current + n)]\<rparr>)))
   \<and> Skip api f 0 w =
     (case hdfsTell api (fs w) (hfile f) of
        (current, s1) \<Rightarrow>
          if sint current < 0
          then (IOError (filename f) (errno api s1),
                \<lparr>fs = s1, calls = calls w @ [CallTell (hfile f)]\<rparr>)
          else (case hdfsSeek api s1 (hfile f) current of
                  (val, s2) \<Rightarrow>
                    (if val < 0 then IOError (filename f) (errno api s2) else OK,
                     \<lparr>fs = s2, calls = calls w @ [CallTell (hfile f),
                                                  CallSeek (hfile f) current]\<rparr>)))"
  by (simp add: Skip_def remote_def Let_def split: prod.splits)

text \<open>Runs on the scripted backend: a skip of 5 from offset 7, and a skip of 0 from 7.\<close>

theorem Skip_witness:
  "Skip scripted \<lparr>filename = ''f'', hfile = Some 1\<rparr> 5 \<lparr>fs = [ROffset 7, RInt 0], calls = []\<rparr>
   = (OK, \<lparr>fs = [], calls = [CallTell (Some 1), CallSeek (Some 1) 12]\<rparr>)
   \<and> Skip scripted \<lparr>filename = ''f'', hfile = Some 1\<rparr> 0 \<lparr>fs = [ROffset 7, RInt 0], calls = []\<rparr>
   = (OK, \<lparr>fs = [], calls = [CallTell (Some 1), CallSeek (Some 1) 7]\<rparr>)"
  using Skip_tell_then_seek [of scripted "\<lparr>filename = ''f'', hfile = Some 1\<rparr>" 5
          "\<lparr>fs = [ROffset 7, RInt 0], calls = []\<rparr>"]
        Skip_tell_then_seek [of scripted "\<lparr>filename = ''f'', hfile = Some 1\<rparr>" 0
          "\<lparr>fs = [ROffset 7, RInt 0], calls = []\<rparr>"]
  by (simp add: scripted_def)

text \<open>
  C6 as the claim has it fails: \<open>Skip(0)\<close> is not a no-op that succeeds. When
  \<open>hdfsTell\<close> fails (returns -1), \<open>Skip(0)\<close> returns IOError.
\<close>

theorem Skip_zero_counterexample:
  "fst (Skip scripted \<lparr>filename = ''f'', hfile = Some 1\<rparr> 0
          \<lparr>fs = [ROffset (-1)], calls = []\<rparr>) = IOError ''f'' 5"
  by (simp add: Skip_def remote_def scripted_def)

text \<open>
  C10. FileExists makes one existence check and returns true exactly when the check
  returned 0; every other return value of the check, an error of the check included,
  gives false, so that a failure of the backend looks like absence.
\<close>

theorem FileExists_true_iff_zero:
  "FileExists api fname w =
     (fst (hdfsExists api (fs w) fname) = 0,
      \<lparr>fs = snd (hdfsExists api (fs w) fname), calls = calls w @ [CallExists fname]\<rparr>)"
  by (simp add: FileExists_def remote_def split: prod.splits)

subsection \<open>Writing\<close>

text \<open>
  C8. \<open>Sync()\<close> calls \<open>hdfsFlush\<close> first; when that returns -1 the result is IOError
  and \<open>hdfsSync\<close> is not called. Otherwise \<open>hdfsSync\<close> is called next, and the result is
  IOError when it returns -1 and OK when not. \<open>Flush()\<close> returns OK and makes no remote
  call: the backend and the log of calls are as they were.
\<close>

theorem Sync_flush_then_sync:
  "Sync api f w =
     (case hdfsFlush api (fs w) (whfile f) of
        (r1, s1) \<Rightarrow>
          if r1 = -1
          then (IOError (wfilename f) (errno api s1),
                \<lparr>fs = s1, calls = calls w @ [CallFlush (whfile f)]\<rparr>)
          else (case hdfsSync api s1 (whfile f) of
                  (r2, s2) \<Rightarrow>
                    (if r2 = -1 then IOError (wfilename f) (errno api s2) else OK,
                     \<lparr>fs = s2, calls = calls w @ [CallFlush (whfile f), CallSync (whfile f)]\<rparr>)))
   \<and> Flush f w = (OK, w)"
  by (simp add: Sync_def Flush_def remote_def split: prod.splits)

text \<open>
  Runs on the scripted backend: both calls succeed; the flush fails; the sync fails.
\<close>

theorem Sync_witness:
  "Sync scripted \<lparr>wfilename = ''LOG'', whfile = Some 7\<rparr> \<lparr>fs = [RInt 0, RInt 0], calls = []\<rparr>
   = (OK, \<lparr>fs = [], calls = [CallFlush (Some 7), CallSync (Some 7)]\<rparr>)
   \<and> Sync scripted \<lparr>wfilename = ''LOG'', whfile = Some 7\<rparr> \<lparr>fs = [RInt (-1), RInt 0], calls = []\<rparr>
   = (IOError ''LOG'' 5, \<lparr>fs = [RInt 0], calls = [CallFlush (Some 7)]\<rparr>)
   \<and> Sync scripted \<lparr>wfilename = ''LOG'', whfile = Some 7\<rparr> \<lparr>fs = [RInt 0, RInt (-1)], calls = []\<rparr>
   = (IOError ''LOG'' 5, \<lparr>fs = [], calls = [CallFlush (Some 7), CallSync (Some 7)]\<rparr>)"
  using Sync_flush_then_sync [of scripted "\<lparr>wfilename = ''LOG'', whfile = Some 7\<rparr>"
          "\<lparr>fs = [RInt 0, RInt 0], calls = []\<rparr>"]
        Sync_flush_then_sync [of scripted "\<lparr>wfilename = ''LOG'', whfile = Some 7\<rparr>"
          "\<lparr>fs = [RInt (-1), RInt 0], calls = []\<rparr>"]
        Sync_flush_then_sync [of scripted "\<lparr>wfilename = ''LOG'', whfile = Some 7\<rparr>"
          "\<lparr>fs = [RInt 0, RInt (-1)], calls = []\<rparr>"]
  by (simp add: scripted_def)

text \<open>
  C3. The code does not do what the claim says. A writer on handle 7 whose remote close
  fails: \<open>Close()\<close> returns IOError and leaves \<open>hfile_\<close> as it was (the early return
  comes before \<open>hfile_ = nullptr\<close>), so the destructor, which closes whenever \<open>hfile_\<close>
  is not null, closes handle 7 a second time.
\<close>

theorem Close_failure_keeps_handle:
  "(case Close scripted \<lparr>wfilename = ''LOG'', whfile = Some 7\<rparr>
           \<lparr>fs = [RInt (-1), RInt 0], calls = []\<rparr> of
      ((st, f'), w1) \<Rightarrow>
        (st, whfile f', calls (snd (destroy_HdfsWritableFile scripted f' w1))))
   = (IOError ''LOG'' 5, Some 7, [CallCloseFile (Some 7), CallCloseFile (Some 7)])"
  by (simp add: Close_def destroy_HdfsWritableFile_def remote_def scripted_def)

subsection \<open>The environment\<close>

text \<open>
  C2. The code does not do what the claim says for two of the three factories. When
  \<open>hdfsOpenFile\<close> returns a null handle, \<open>NewSequentialFile\<close> and \<open>NewRandomAccessFile\<close>
  return OK with a wrapper whose handle is null (they test the result of \<open>new\<close> only and
  never call \<open>isValid\<close>); \<open>NewWritableFile\<close>, which does call \<open>isValid\<close>, returns
  IOError and no wrapper (with \<open>NDEBUG\<close>; without it the constructor's assertion fails).
\<close>

theorem NewSequentialFile_unopened_handle:
  "NewSequentialFile scripted ''/missing'' \<lparr>fs = [RHandle None], calls = []\<rparr> =
     ((OK, Some \<lparr>filename = ''/missing'', hfile = None\<rparr>),
      \<lparr>fs = [], calls = [CallOpenFile ''/missing'' O_RDONLY]\<rparr>)
   \<and> NewRandomAccessFile scripted ''/missing'' \<lparr>fs = [RHandle None], calls = []\<rparr> =
     ((OK, Some \<lparr>filename = ''/missing'', hfile = None\<rparr>),
      \<lparr>fs = [], calls = [CallOpenFile ''/missing'' O_RDONLY]\<rparr>)
   \<and> \<not> isValid \<lparr>filename = ''/missing'', hfile = None\<rparr>
   \<and> NewWritableFile scripted True ''/missing'' \<lparr>fs = [RHandle None], calls = []\<rparr> =
     (Return (IOError ''/missing'' 5, None),
      \<lparr>fs = [], calls = [CallOpenFile ''/missing'' O_WRONLY]\<rparr>)
   \<and> NewWritableFile scripted False ''/missing'' \<lparr>fs = [RHandle None], calls = []\<rparr> =
     (Abort, \<lparr>fs = [], calls = [CallOpenFile ''/missing'' O_WRONLY]\<rparr>)"
  by (simp add: NewSequentialFile_def NewRandomAccessFile_def NewWritableFile_def
      HdfsReadableFile_def HdfsWritableFile_def operator_new_def isValid_def wisValid_def
      remote_def scripted_def)

text \<open>
  C9. \<open>RenameFile(src, dst)\<close> calls \<open>hdfsDelete\<close> on \<open>dst\<close> and does not look at what
  it returns, then calls \<open>hdfsRename\<close>; the status is OK exactly when the rename returned
  0 and IOError otherwise, and the backend is left as the rename left it: nothing is put
  back. On the namespace backend: when \<open>dst\<close> exists and \<open>src\<close> does not, the result is
  IOError and afterwards neither \<open>dst\<close> nor \<open>src\<close> exists.
\<close>

theorem RenameFile_delete_then_rename:
  "RenameFile api src dst w =
     (case hdfsDelete api (fs w) dst of
        (d, s1) \<Rightarrow>
          (case hdfsRename api s1 src dst of
             (r, s2) \<Rightarrow>
               (if r = 0 then OK else IOError src (errno api s2),
                \<lparr>fs = s2, calls = calls w @ [CallDelete dst, CallRename src dst]\<rparr>)))
   \<and> (dst \<in> set paths \<and> src \<notin> set paths \<longrightarrow>
        RenameFile namespace src dst \<lparr>fs = paths, calls = cs\<rparr> =
          (IOError src 2,
           \<lparr>fs = removeAll dst paths, calls = cs @ [CallDelete dst, CallRename src dst]\<rparr>)
        \<and> dst \<notin> set (removeAll dst paths) \<and> src \<notin> set (removeAll dst paths))"
  by (auto simp add: RenameFile_def remote_def namespace_def split: prod.splits)

text \<open>
  A run on the namespace backend: \<open>/db/CURRENT\<close> exists, \<open>/db/CURRENT.tmp\<close> does not.
\<close>

theorem RenameFile_witness:
  "RenameFile namespace ''/db/CURRENT.tmp'' ''/db/CURRENT''
      \<lparr>fs = [''/db/CURRENT'', ''/db/LOG''], calls = []\<rparr> =
     (IOError ''/db/CURRENT.tmp'' 2,
      \<lparr>fs = [''/db/LOG''],
       calls = [CallDelete ''/db/CURRENT'', CallRename ''/db/CURRENT.tmp'' ''/db/CURRENT'']\<rparr>)"
proof -
  have a: "''/db/CURRENT'' \<in> set [''/db/CURRENT'', ''/db/LOG'']" by simp
  have b: "''/db/CURRENT.tmp'' \<notin> set [''/db/CURRENT'', ''/db/LOG'']" by simp
  have c: "removeAll ''/db/CURRENT'' [''/db/CURRENT'', ''/db/LOG''] = [''/db/LOG'']" by simp
  from a b RenameFile_delete_then_rename [THEN conjunct2, of "''/db/CURRENT''"
      "[''/db/CURRENT'', ''/db/LOG'']" "''/db/CURRENT.tmp''" "[]"]
  have "RenameFile namespace ''/db/CURRENT.tmp'' ''/db/CURRENT''
      \<lparr>fs = [''/db/CURRENT'', ''/db/LOG''], calls = []\<rparr> =
     (IOError ''/db/CURRENT.tmp'' 2,
      \<lparr>fs = removeAll ''/db/CURRENT'' [''/db/CURRENT'', ''/db/LOG''],
       calls = [] @ [CallDelete ''/db/CURRENT'', CallRename ''/db/CURRENT.tmp'' ''/db/CURRENT'']\<rparr>)"
    by blast
  then show ?thesis unfolding c by simp
qed

subsection \<open>The logger\<close>

text \<open>Stores to and loads from a buffer whose first cells are written.\<close>

lemma poke_fresh:
  "length xs \<le> n \<Longrightarrow>
   poke (replicate n None) 0 xs = Some (map Some xs @ replicate (n - length xs) None)"
  by (simp add: poke_def)

lemma poke_after_prefix:
  "length xs \<le> length rest \<Longrightarrow>
   poke (map Some pre @ rest) (length pre) xs = Some (map Some (pre @ xs) @ drop (length xs) rest)"
  by (simp add: poke_def)

lemma peek_prefix:
  "i < length xs \<Longrightarrow> peek (map Some xs @ rest) i = Some (xs ! i)"
  by (simp add: peek_def nth_append)

lemma those_map_Some: "those (map Some xs) = Some xs"
  by (induction xs) simp_all

lemma those_take_prefix:
  "those (take (length xs) (map Some xs @ rest)) = Some xs"
  by (simp add: those_map_Some)

text \<open>The buffer after the header, and after the message.\<close>

lemma format_header:
  assumes "0 < cap"
  shows "c_snprintf (replicate cap None) 0 cap hdr =
           (Some (map Some (take (cap - 1) hdr) @ Some NUL #
                  replicate (cap - 1 - length (take (cap - 1) hdr)) None), length hdr)"
proof -
  have "length (take (cap - 1) hdr @ [NUL]) \<le> cap" using assms by simp
  from poke_fresh [OF this] assms show ?thesis
    by (simp add: c_snprintf_def replicate_append_same [symmetric] Suc_diff_Suc del: replicate_append_same)
qed

lemma format_message:
  assumes h: "length hdr < cap"
  shows "\<exists>rest. c_snprintf (map Some hdr @ Some NUL # replicate (cap - 1 - length hdr) None)
              (length hdr) (cap - length hdr) msg =
           (Some (map Some (take (cap - 1) (hdr @ msg)) @ Some NUL # rest), length msg)
         \<and> length (take (cap - 1) (hdr @ msg)) + 1 + length rest = cap"
proof -
  let ?xs = "take (cap - length hdr - 1) msg @ [NUL]"
  let ?rest0 = "Some NUL # replicate (cap - 1 - length hdr) None"
  have le: "length ?xs \<le> length ?rest0" using h by simp
  have t: "take (cap - 1) (hdr @ msg) = hdr @ take (cap - length hdr - 1) msg"
    using h by simp
  from poke_after_prefix [OF le, of hdr]
  have "poke (map Some hdr @ ?rest0) (length hdr) ?xs =
          Some (map Some (hdr @ take (cap - length hdr - 1) msg) @ Some NUL # drop (length ?xs) ?rest0)"
    by simp
  with h t show ?thesis
    by (auto simp add: c_snprintf_def)
qed

lemma Logv_format_eq:
  assumes cap0: "0 < cap"
  shows "\<exists>rest. Logv_format cap hdr msg =
           (Some (map Some (take (cap - 1) (hdr @ msg)) @ Some NUL # rest),
            if length hdr < cap then length hdr + length msg else length hdr)
         \<and> length (take (cap - 1) (hdr @ msg)) + 1 + length rest = cap"
proof (cases "length hdr < cap")
  case True
  then have hd: "take (cap - 1) hdr = hdr" by simp
  from format_message [OF True, of msg] obtain rest where
    fm: "c_snprintf (map Some hdr @ Some NUL # replicate (cap - 1 - length hdr) None)
            (length hdr) (cap - length hdr) msg =
         (Some (map Some (take (cap - 1) (hdr @ msg)) @ Some NUL # rest), length msg)"
    and len: "length (take (cap - 1) (hdr @ msg)) + 1 + length rest = cap"
    by blast
  have "Logv_format cap hdr msg =
          (Some (map Some (take (cap - 1) (hdr @ msg)) @ Some NUL # rest), length hdr + length msg)"
    unfolding Logv_format_def Let_def using True fm
    by (simp add: format_header [OF cap0] hd)
  with True len show ?thesis by auto
next
  case False
  then have tt: "take (cap - 1) (hdr @ msg) = take (cap - 1) hdr" using cap0 by simp
  have l: "length (take (cap - 1) hdr) = cap - 1" using False cap0 by simp
  have "Logv_format cap hdr msg = (Some (map Some (take (cap - 1) hdr) @ Some NUL # []), length hdr)"
    unfolding Logv_format_def Let_def using False l
    by (simp add: format_header [OF cap0])
  with False tt l cap0 show ?thesis by auto
qed

lemma Logv_newline_eq:
  assumes len: "length t + 1 + length rest = cap"
  shows "Logv_newline (map Some t @ Some NUL # rest) (length t) cap = Break (with_newline t)"
proof (cases "t = []")
  case True
  with len show ?thesis
    by (simp add: Logv_newline_def poke_def with_newline_def)
next
  case False
  let ?B = "map Some t @ Some NUL # rest"
  have pk: "peek ?B (length t - 1) = Some (last t)"
    using False by (simp add: peek_prefix last_conv_nth)
  have po: "poke ?B (length t) [newline] = Some (map Some (t @ [newline]) @ rest)"
    using poke_after_prefix [of "[newline]" "Some NUL # rest" t] by simp
  have th1: "those (take (Suc (length t)) (map Some (t @ [newline]) @ rest)) = Some (t @ [newline])"
    using those_take_prefix [of "t @ [newline]" rest] by simp
  have th2: "those (take (length t) ?B) = Some t"
    using those_take_prefix [of t "Some NUL # rest"] by simp
  from False pk po th1 th2 len show ?thesis
    by (simp add: Logv_newline_def with_newline_def)
qed

text \<open>
  What one pass gives: the first pass gives up when header and message have 500 bytes or
  more; otherwise the line is the content, cut to \<open>bufsize - 1\<close> bytes, with the newline.
\<close>

lemma Logv_body_eq:
  "Logv_body iter hdr msg =
     (if iter = 0
      then (if 500 \<le> length (hdr @ msg) then Continue
            else Break (with_newline (hdr @ msg)))
      else Break (with_newline (take 29999 (hdr @ msg))))"
proof -
  define cap :: nat where "cap = (if iter = 0 then 500 else 30000)"
  have cap0: "0 < cap" by (simp add: cap_def)
  define t where "t = take (cap - 1) (hdr @ msg)"
  from Logv_format_eq [OF cap0, of hdr msg] obtain rest where
    fm: "Logv_format cap hdr msg =
           (Some (map Some t @ Some NUL # rest),
            if length hdr < cap then length hdr + length msg else length hdr)"
    and len: "length t + 1 + length rest = cap"
    unfolding t_def by blast
  note nl = Logv_newline_eq [OF len]
  have body: "Logv_body iter hdr msg =
     (if cap \<le> length (hdr @ msg) then (if iter = 0 then Continue else Break (with_newline t))
      else Break (with_newline t))"
  proof (cases "cap \<le> length (hdr @ msg)")
    case True
    then have lt: "length t = cap - 1" using cap0 by (simp add: t_def)
    have p: "cap \<le> (if length hdr < cap then length hdr + length msg else length hdr)"
      using True by simp
    show ?thesis
      unfolding Logv_body_def Let_def cap_def [symmetric] fm
      using True p nl lt by simp
  next
    case False
    then have lt: "length t = length hdr + length msg" by (simp add: t_def)
    have p: "(if length hdr < cap then length hdr + length msg else length hdr) = length t"
      using False lt by simp
    show ?thesis
      unfolding Logv_body_def Let_def cap_def [symmetric] fm p
      using False nl lt by simp
  qed
  show ?thesis
    unfolding body by (auto simp add: cap_def t_def)
qed

lemma Logv_loop_eq:
  "Logv_loop 0 hdr0 hdr1 msg =
     (if length (hdr0 @ msg) < 500 then Break (with_newline (hdr0 @ msg))
      else Break (with_newline (take 29999 (hdr1 @ msg))))"
  by (subst Logv_loop.simps, subst Logv_loop.simps) (simp add: Logv_body_eq)


lemma with_newline_last: "with_newline t \<noteq> [] \<and> last (with_newline t) = newline"
  by (simp add: with_newline_def)

lemma with_newline_length: "length (with_newline t) \<le> length t + 1"
  by (simp add: with_newline_def)

lemma one_trailing_newline_with_newline:
  "one_trailing_newline (with_newline t) = (\<not> ends_with_two_newlines t)"
proof (cases "rev t")
  case Nil
  then show ?thesis
    by (simp add: one_trailing_newline_def ends_with_two_newlines_def with_newline_def)
next
  case (Cons c r)
  then have t: "t = rev r @ [c]" by (metis rev_rev_ident rev.simps(2))
  show ?thesis
    by (cases r) (auto simp add: t one_trailing_newline_def ends_with_two_newlines_def with_newline_def)
qed

text \<open>
  C4, as the code has it. For every header and message, \<open>Logv\<close> stores nothing outside
  the buffer, reads no cell it has not written, and its assertion holds: the loop always
  ends in a line. When header and message together have fewer than 500 bytes the line is
  formatted in the small buffer and is the whole content; otherwise the second pass
  formats it in the buffer of 30000 bytes and cuts the content to 29999 bytes. A newline
  is appended exactly when the content is empty or its last byte is not a newline, so the
  line always ends in a newline and is never longer than the buffer (500 or 30000 bytes).
  The line ends in exactly one newline unless the (cut) content itself ends in two. The
  line is handed to \<open>Append\<close>, one \<open>hdfsWrite\<close>; \<open>Logv\<close> returns normally.
\<close>

theorem Logv_line_within_buffer:
  "Logv_loop 0 hdr0 hdr1 msg =
     Break (if length (hdr0 @ msg) < 500 then with_newline (hdr0 @ msg)
            else with_newline (take 29999 (hdr1 @ msg)))
   \<and> length (with_newline (hdr0 @ msg)) \<le> (if length (hdr0 @ msg) < 500 then 500 else length (hdr0 @ msg) + 1)
   \<and> length (with_newline (take 29999 (hdr1 @ msg))) \<le> 30000
   \<and> (\<forall>t. last (with_newline t) = newline
          \<and> one_trailing_newline (with_newline t) = (\<not> ends_with_two_newlines t))
   \<and> Logv api file hdr0 hdr1 msg w =
       (Return (),
        snd (Append api file
               (if length (hdr0 @ msg) < 500 then with_newline (hdr0 @ msg)
                else with_newline (take 29999 (hdr1 @ msg)))
               (of_nat (length (if length (hdr0 @ msg) < 500 then with_newline (hdr0 @ msg)
                                else with_newline (take 29999 (hdr1 @ msg))))) w))"
proof (intro conjI allI)
  show l: "Logv_loop 0 hdr0 hdr1 msg =
     Break (if length (hdr0 @ msg) < 500 then with_newline (hdr0 @ msg)
            else with_newline (take 29999 (hdr1 @ msg)))"
    using Logv_loop_eq [of hdr0 hdr1 msg] by simp
  show "length (with_newline (hdr0 @ msg)) \<le> (if length (hdr0 @ msg) < 500 then 500 else length (hdr0 @ msg) + 1)"
    using with_newline_length [of "hdr0 @ msg"] by simp
  show "length (with_newline (take 29999 (hdr1 @ msg))) \<le> 30000"
    using with_newline_length [of "take 29999 (hdr1 @ msg)"] by simp
  show "last (with_newline t) = newline" for t
    by (simp add: with_newline_last)
  show "one_trailing_newline (with_newline t) = (\<not> ends_with_two_newlines t)" for t
    by (rule one_trailing_newline_with_newline)
  show "Logv api file hdr0 hdr1 msg w =
       (Return (),
        snd (Append api file
               (if length (hdr0 @ msg) < 500 then with_newline (hdr0 @ msg)
                else with_newline (take 29999 (hdr1 @ msg)))
               (of_nat (length (if length (hdr0 @ msg) < 500 then with_newline (hdr0 @ msg)
                                else with_newline (take 29999 (hdr1 @ msg))))) w))"
    unfolding Logv_def l by (simp add: Flush_def split: prod.splits)
qed

text \<open>A run on a short message.\<close>

theorem Logv_witness:
  "Logv_loop 0 ''2013/11/05-10:00:00.000000 7f3a '' ''2013/11/05-10:00:00.000001 7f3a '' ''opened''
     = Break ''2013/11/05-10:00:00.000000 7f3a opened\<newline>''"
  using Logv_line_within_buffer [THEN conjunct1, of "''2013/11/05-10:00:00.000000 7f3a ''" "''2013/11/05-10:00:00.000001 7f3a ''" "''opened''"]
  by (simp add: with_newline_def newline_def)

text \<open>
  C4 as the claim has it fails: the line does not always end in exactly one newline. A
  message that ends in two newlines gives a line that ends in two newlines.
\<close>

theorem Logv_two_newlines_counterexample:
  "Logv_loop 0 ''2013/11/05-10:00:00.000000 7f3a '' ''2013/11/05-10:00:00.000001 7f3a '' ''done\<newline>\<newline>''
     = Break ''2013/11/05-10:00:00.000000 7f3a done\<newline>\<newline>''
   \<and> \<not> one_trailing_newline ''2013/11/05-10:00:00.000000 7f3a done\<newline>\<newline>''"
  by (simp add: Logv_loop_eq with_newline_def newline_def one_trailing_newline_def)

subsection \<open>Listing a directory\<close>

lemma rindex_None: "rindex s c = None \<longleftrightarrow> c \<notin> set s"
  by (induction s) (auto split: option.splits)

lemma rindex_Some_tl:
  "rindex s c = Some r \<Longrightarrow> tl r = rev (takeWhile (\<lambda>x. x \<noteq> c) (rev s))"
proof (induction s arbitrary: r)
  case Nil
  then show ?case by simp
next
  case (Cons x xs)
  show ?case
  proof (cases "rindex xs c")
    case None
    then have notin: "c \<notin> set xs" by (simp add: rindex_None)
    from Cons.prems None have "x = c" and "r = x # xs" by (auto split: if_splits)
    moreover have "takeWhile (\<lambda>y. y \<noteq> c) (rev xs @ [c]) = rev xs"
      using notin by (subst takeWhile_append2) auto
    ultimately show ?thesis by simp
  next
    case (Some r')
    then have "c \<in> set xs" using rindex_None [of xs c] by auto
    then have "takeWhile (\<lambda>y. y \<noteq> c) (rev xs @ [x]) = takeWhile (\<lambda>y. y \<noteq> c) (rev xs)"
      by (intro takeWhile_append1 [where x = c]) auto
    moreover from Cons.prems Some have "r = r'" by simp
    ultimately show ?thesis using Cons.IH [OF Some] by simp
  qed
qed

lemma GetChildren_loop_prefix:
  "0 \<le> i \<Longrightarrow> i \<le> k \<Longrightarrow> nat k \<le> length infos \<Longrightarrow>
   GetChildren_loop (Some infos) k i result =
     Some (result @ listed_basenames (drop (nat i) (take (nat k) infos)))"
proof (induction "nat k - nat i" arbitrary: i result)
  case 0
  then have "\<not> i < k" by linarith
  moreover from 0 have "drop (nat i) (take (nat k) infos) = []" by simp
  ultimately show ?case
    by (subst GetChildren_loop.simps) (simp add: listed_basenames_def)
next
  case (Suc d)
  then have lt: "i < k" and n: "nat i < length infos" and nk: "nat i < nat k" by linarith+
  have nx: "nat (i + 1) = Suc (nat i)" using Suc.prems(1) by simp
  have dr: "drop (nat i) (take (nat k) infos) =
              infos ! nat i # drop (Suc (nat i)) (take (nat k) infos)"
    using n nk Suc.prems(3) Cons_nth_drop_Suc [of "nat i" "take (nat k) infos"] by simp
  have ih: "GetChildren_loop (Some infos) k (i + 1) r =
              Some (r @ listed_basenames (drop (Suc (nat i)) (take (nat k) infos)))" for r
    using Suc.hyps(1) [of "i + 1" r] Suc.hyps(2) Suc.prems lt nx by simp
  show ?case
  proof (cases "rindex (mName (infos ! nat i)) (CHR ''/'')")
    case None
    then have "CHR ''/'' \<notin> set (mName (infos ! nat i))" by (simp add: rindex_None)
    with None lt n Suc.prems(1) ih show ?thesis
      by (subst GetChildren_loop.simps) (simp add: dr listed_basenames_def)
  next
    case (Some r)
    then have "CHR ''/'' \<in> set (mName (infos ! nat i))"
      using rindex_None [of "mName (infos ! nat i)" "CHR ''/''"] by auto
    moreover have "tl r = basename (mName (infos ! nat i))"
      using rindex_Some_tl [OF Some] by (simp add: basename_def)
    ultimately show ?thesis using Some lt n Suc.prems(1) ih
      by (subst GetChildren_loop.simps) (simp add: dr listed_basenames_def)
  qed
qed

lemma GetChildren_loop_listing:
  assumes "0 \<le> k" "nat k \<le> length (case p of None \<Rightarrow> [] | Some infos \<Rightarrow> infos)"
  shows "GetChildren_loop p k 0 result =
           Some (result @ listed_basenames
                   (take (nat k) (case p of None \<Rightarrow> [] | Some infos \<Rightarrow> infos)))"
proof (cases p)
  case None
  with assms have "k = 0" by simp
  with None show ?thesis
    by (subst GetChildren_loop.simps) (simp add: listed_basenames_def)
next
  case (Some infos)
  with assms GetChildren_loop_prefix [of 0 k infos result] show ?thesis by simp
qed

lemma GetChildren_status_OK:
  "fst (fst (GetChildren api path result w)) = Return st \<Longrightarrow> st = OK"
  by (auto simp add: GetChildren_def remote_def split: prod.splits option.splits if_splits)

text \<open>
  C5. \<open>GetChildren(path)\<close>, called with an empty vector for the result. When the
  existence check returns 1 (no such path) the sequence returned is empty and the status
  is OK. When the check returns 0 and the listing succeeds (a count that is not negative,
  with that many entries in the array; a null array with the count 0 is a listing of no
  entries), the sequence is exactly the basenames of the listed entries whose full name
  contains a separator, in the order of the listing, the other entries being dropped, and
  the status is OK. A negative listing count, and a return value of the existence check
  other than 0 and 1, throw \<open>HdfsFatalException\<close>; no call returns a status other
  than OK.
\<close>

theorem GetChildren_lists_basenames:
  assumes ex: "hdfsExists api (fs w) path = (v, s1)"
  shows "(v = 1 \<longrightarrow>
            GetChildren api path [] w =
              ((Return OK, []), \<lparr>fs = s1, calls = calls w @ [CallExists path]\<rparr>))
       \<and> (v = 0 \<and> hdfsListDirectory api s1 path = ((p, k), s2) \<and> 0 \<le> k \<and>
          nat k \<le> length (case p of None \<Rightarrow> [] | Some infos \<Rightarrow> infos) \<longrightarrow>
            GetChildren api path [] w =
              ((Return OK,
                listed_basenames (take (nat k) (case p of None \<Rightarrow> [] | Some infos \<Rightarrow> infos))),
               \<lparr>fs = s2, calls = calls w @ [CallExists path, CallListDirectory path]\<rparr>))
       \<and> (v = 0 \<and> hdfsListDirectory api s1 path = ((p, k), s2) \<and> k < 0 \<longrightarrow>
            GetChildren api path [] w =
              ((Throw ''hdfsListDirectory call failed negative error.\<newline>'', []),
               \<lparr>fs = s2, calls = calls w @ [CallExists path, CallListDirectory path]\<rparr>))
       \<and> (v \<noteq> 0 \<and> v \<noteq> 1 \<longrightarrow>
            GetChildren api path [] w =
              ((Throw ''hdfsListDirectory call failed with error.\<newline>'', []),
               \<lparr>fs = s1, calls = calls w @ [CallExists path]\<rparr>))
       \<and> (\<forall>st. fst (fst (GetChildren api path [] w)) = Return st \<longrightarrow> st = OK)"
proof (intro conjI impI allI)
  assume "v = 1"
  with ex show "GetChildren api path [] w =
              ((Return OK, []), \<lparr>fs = s1, calls = calls w @ [CallExists path]\<rparr>)"
    by (simp add: GetChildren_def remote_def)
next
  assume a: "v = 0 \<and> hdfsListDirectory api s1 path = ((p, k), s2) \<and> 0 \<le> k \<and>
          nat k \<le> length (case p of None \<Rightarrow> [] | Some infos \<Rightarrow> infos)"
  then have "GetChildren_loop p k 0 [] =
          Some ([] @ listed_basenames (take (nat k) (case p of None \<Rightarrow> [] | Some infos \<Rightarrow> infos)))"
    by (intro GetChildren_loop_listing) simp_all
  with ex a show "GetChildren api path [] w =
              ((Return OK,
                listed_basenames (take (nat k) (case p of None \<Rightarrow> [] | Some infos \<Rightarrow> infos))),
               \<lparr>fs = s2, calls = calls w @ [CallExists path, CallListDirectory path]\<rparr>)"
    by (simp add: GetChildren_def remote_def)
next
  assume "v = 0 \<and> hdfsListDirectory api s1 path = ((p, k), s2) \<and> k < 0"
  with ex show "GetChildren api path [] w =
              ((Throw ''hdfsListDirectory call failed negative error.\<newline>'', []),
               \<lparr>fs = s2, calls = calls w @ [CallExists path, CallListDirectory path]\<rparr>)"
    by (simp add: GetChildren_def remote_def)
next
  assume "v \<noteq> 0 \<and> v \<noteq> 1"
  with ex show "GetChildren api path [] w =
              ((Throw ''hdfsListDirectory call failed with error.\<newline>'', []),
               \<lparr>fs = s1, calls = calls w @ [CallExists path]\<rparr>)"
    by (simp add: GetChildren_def remote_def)
next
  fix st assume "fst (fst (GetChildren api path [] w)) = Return st"
  then show "st = OK" by (rule GetChildren_status_OK)
qed

text \<open>
  Runs on the scripted backend: a missing path; a listing of three entries, one without a
  separator; a null listing with the count 0; a negative listing count; a failed
  existence check.
\<close>

theorem GetChildren_witness:
  "GetChildren scripted ''/nodir'' [] \<lparr>fs = [RInt 1], calls = []\<rparr>
     = ((Return OK, []), \<lparr>fs = [], calls = [CallExists ''/nodir'']\<rparr>)
   \<and> GetChildren scripted ''/db'' []
       \<lparr>fs = [RInt 0, RList (Some [\<lparr>mName = ''hdfs://nn/db/000005.sst'', mSize = 10\<rparr>,
                                     \<lparr>mName = ''LOCK'', mSize = 0\<rparr>,
                                     \<lparr>mName = ''/db/CURRENT'', mSize = 16\<rparr>]) 3], calls = []\<rparr>
     = ((Return OK, [''000005.sst'', ''CURRENT'']),
        \<lparr>fs = [], calls = [CallExists ''/db'', CallListDirectory ''/db'']\<rparr>)
   \<and> GetChildren scripted ''/empty'' [] \<lparr>fs = [RInt 0, RList None 0], calls = []\<rparr>
     = ((Return OK, []),
        \<lparr>fs = [], calls = [CallExists ''/empty'', CallListDirectory ''/empty'']\<rparr>)
   \<and> GetChildren scripted ''/db'' [] \<lparr>fs = [RInt 0, RList None (-1)], calls = []\<rparr>
     = ((Throw ''hdfsListDirectory call failed negative error.\<newline>'', []),
        \<lparr>fs = [], calls = [CallExists ''/db'', CallListDirectory ''/db'']\<rparr>)
   \<and> GetChildren scripted ''/db'' [] \<lparr>fs = [RInt (-1)], calls = []\<rparr>
     = ((Throw ''hdfsListDirectory call failed with error.\<newline>'', []),
        \<lparr>fs = [], calls = [CallExists ''/db'']\<rparr>)"
proof -
  let ?infos = "[\<lparr>mName = ''hdfs://nn/db/000005.sst'', mSize = 10\<rparr>,
                 \<lparr>mName = ''LOCK'', mSize = 0\<rparr>,
                 \<lparr>mName = ''/db/CURRENT'', mSize = 16\<rparr>]"
  have lb: "listed_basenames ?infos = [''000005.sst'', ''CURRENT'']"
    by (simp add: listed_basenames_def basename_def)
  have lb0: "listed_basenames [] = []"
    by (simp add: listed_basenames_def)
  have a: "GetChildren scripted ''/nodir'' [] \<lparr>fs = [RInt 1], calls = []\<rparr>
     = ((Return OK, []), \<lparr>fs = [], calls = [CallExists ''/nodir'']\<rparr>)"
    using GetChildren_lists_basenames [where api = scripted
        and w = "\<lparr>fs = [RInt 1], calls = []\<rparr>" and path = "''/nodir''" and v = 1 and ?s1.0 = "[]"]
    by (simp add: scripted_def)
  have b: "GetChildren scripted ''/db'' [] \<lparr>fs = [RInt 0, RList (Some ?infos) 3], calls = []\<rparr>
     = ((Return OK, [''000005.sst'', ''CURRENT'']),
        \<lparr>fs = [], calls = [CallExists ''/db'', CallListDirectory ''/db'']\<rparr>)"
    using GetChildren_lists_basenames [where api = scripted
        and w = "\<lparr>fs = [RInt 0, RList (Some ?infos) 3], calls = []\<rparr>" and path = "''/db''"
        and v = 0 and ?s1.0 = "[RList (Some ?infos) 3]" and p = "Some ?infos" and k = 3
        and ?s2.0 = "[]"]
    by (simp add: scripted_def lb)
  have e: "GetChildren scripted ''/empty'' [] \<lparr>fs = [RInt 0, RList None 0], calls = []\<rparr>
     = ((Return OK, []),
        \<lparr>fs = [], calls = [CallExists ''/empty'', CallListDirectory ''/empty'']\<rparr>)"
    using GetChildren_lists_basenames [where api = scripted
        and w = "\<lparr>fs = [RInt 0, RList None 0], calls = []\<rparr>" and path = "''/empty''"
        and v = 0 and ?s1.0 = "[RList None 0]" and p = None and k = 0 and ?s2.0 = "[]"]
    by (simp add: scripted_def lb0)
  have c: "GetChildren scripted ''/db'' [] \<lparr>fs = [RInt 0, RList None (-1)], calls = []\<rparr>
     = ((Throw ''hdfsListDirectory call failed negative error.\<newline>'', []),
        \<lparr>fs = [], calls = [CallExists ''/db'', CallListDirectory ''/db'']\<rparr>)"
    using GetChildren_lists_basenames [where api = scripted
        and w = "\<lparr>fs = [RInt 0, RList None (-1)], calls = []\<rparr>" and path = "''/db''"
        and v = 0 and ?s1.0 = "[RList None (-1)]" and p = None and k = "-1" and ?s2.0 = "[]"]
    by (simp add: scripted_def)
  have d: "GetChildren scripted ''/db'' [] \<lparr>fs = [RInt (-1)], calls = []\<rparr>
     = ((Throw ''hdfsListDirectory call failed with error.\<newline>'', []),
        \<lparr>fs = [], calls = [CallExists ''/db'']\<rparr>)"
    using GetChildren_lists_basenames [where api = scripted
        and w = "\<lparr>fs = [RInt (-1)], calls = []\<rparr>" and path = "''/db''" and v = "-1"
        and ?s1.0 = "[]"]
    by (simp add: scripted_def)
  from a b e c d show ?thesis by blast
qed

end
